theory Spec2Isabelle
  imports Main "HOL-Library.Word"
begin

section \<open>Address-to-object resolution (src/binary/object.hpp)\<close>

text \<open>
  The header turns a raw instruction pointer into an object frame: the path of the
  binary that contains the address and the address rebased from the runtime load address
  to the link-time image base. Addresses are \<open>std::uintptr_t\<close>; they are modelled as
  words of an arbitrary width \<open>'w\<close>, so that \<open>+\<close> and \<open>-\<close> wrap as the unsigned
  C++ arithmetic does.
\<close>

subsection \<open>Data\<close>

text \<open>
  \<open>object_frame\<close> and \<open>safe_object_frame\<close> are the structs the header fills, with
  their fields in the order of the aggregate initialisation in
  \<open>resolve_safe_object_frame\<close>. A record field is a constant of the theory, so the
  fields \<open>raw_address\<close> and \<open>object_path\<close> of the safe frame carry the prefix
  \<open>safe_\<close>.
\<close>

record (overloaded) ('w::len) object_frame =
  raw_address :: "'w word"
  object_address :: "'w word"
  object_path :: string

record (overloaded) ('w::len) safe_object_frame =
  safe_raw_address :: "'w word"
  address_relative_to_object_start :: "'w word"
  safe_object_path :: string

text \<open>
  What the operating system hands back. \<open>link_map\<close> is the part of
  \<open>dl_find_object.dlfo_link_map\<close> the code reads (\<open>l_name\<close> may be the null
  pointer: \<open>None\<close>), \<open>dl_info\<close> the part of \<open>Dl_info\<close> it reads. C strings are
  given by their characters before the terminator.
\<close>

record (overloaded) ('w::len) link_map =
  l_name :: "string option"
  l_addr :: "'w word"

record (overloaded) ('w::len) dl_info =
  dli_fname :: string
  dli_fbase :: "'w word"

text \<open>
  The services the header calls but does not define, as they answer at one moment:
  \<^item> \<open>dl_find_object\<close>: \<open>_dl_find_object\<close>, \<open>None\<close> when it does not return 0;
  \<^item> \<open>readlink_proc_self_exe\<close>: \<open>readlink("/proc/self/exe", ...)\<close>, \<open>None\<close> when
    it returns -1, otherwise the string left in the zero-initialised buffer;
  \<^item> \<open>dladdr\<close>: \<open>None\<close> when it returns 0;
  \<^item> \<open>GetModuleHandleExA\<close>, \<open>GetModuleFileNameA\<close>: \<open>Inl\<close> the code of
    \<open>GetLastError()\<close> when the call returns zero; a module handle is the word that
    \<open>reinterpret_cast<std::uintptr_t>\<close> reads from it;
  \<^item> \<open>binary_image_base\<close>: the binary-format reader the build selects
    (\<open>elf_get_module_image_base\<close>, \<open>mach_o(...).get_text_vmaddr()\<close> or
    \<open>pe_get_module_image_base\<close>).
\<close>

record (overloaded) ('w::len) os =
  dl_find_object :: "'w word \<Rightarrow> 'w link_map option"
  readlink_proc_self_exe :: "string option"
  dladdr :: "'w word \<Rightarrow> 'w dl_info option"
  GetModuleHandleExA :: "'w word \<Rightarrow> nat + 'w word"
  GetModuleFileNameA :: "'w word \<Rightarrow> nat + string"
  binary_image_base :: "string \<Rightarrow> 'w word"

text \<open>
  The function-local statics of the header, which live as long as the process: the two
  \<open>unordered_map\<close> caches. Three further fields record what the functions do besides
  returning: \<open>parse_calls\<close> lists the paths handed to the binary-format reader,
  \<open>file_name_calls\<close> the handles handed to \<open>GetModuleFileNameA\<close>, and
  \<open>stderr_lines\<close> the error codes whose message was printed to \<open>stderr\<close>, each in
  the order of the calls. Every access to a cache happens under that cache's mutex, so a
  call is one atomic step on this state.
\<close>

record (overloaded) ('w::len) statics =
  image_base_cache :: "string \<rightharpoonup> 'w word"
  module_name_cache :: "'w word \<rightharpoonup> string"
  parse_calls :: "string list"
  file_name_calls :: "'w word list"
  stderr_lines :: "nat list"

definition process_start :: "('w::len) statics" where
  "process_start =
     \<lparr>image_base_cache = Map.empty, module_name_cache = Map.empty,
      parse_calls = [], file_name_calls = [], stderr_lines = []\<rparr>"

text \<open>The three ways of finding the module of an address, selected by the preprocessor.\<close>

datatype build = Dl_find_object | Dladdr | Windows

subsection \<open>The caches\<close>

text \<open>
  \<open>get_module_image_base\<close> is written three times in the header (ELF, Mach-O, PE); the
  copies differ in the reader they call only.
\<close>

definition get_module_image_base ::
  "('w::len) os \<Rightarrow> 'w statics \<Rightarrow> string \<Rightarrow> 'w word \<times> 'w statics" where
  "get_module_image_base env st path =
     (case image_base_cache st path of
        None \<Rightarrow>
          (let base = binary_image_base env path
           in (base, st\<lparr>image_base_cache := (image_base_cache st)(path \<mapsto> base),
                        parse_calls := parse_calls st @ [path]\<rparr>))
      | Some cached \<Rightarrow> (cached, st))"

definition get_module_name ::
  "('w::len) os \<Rightarrow> 'w statics \<Rightarrow> 'w word \<Rightarrow> string \<times> 'w statics" where
  "get_module_name env st handle =
     (case module_name_cache st handle of
        None \<Rightarrow>
          (case GetModuleFileNameA env handle of
             Inr path \<Rightarrow>
               (path, st\<lparr>module_name_cache := (module_name_cache st)(handle \<mapsto> path),
                         file_name_calls := file_name_calls st @ [handle]\<rparr>)
           | Inl err \<Rightarrow>
               ('''', st\<lparr>module_name_cache := (module_name_cache st)(handle \<mapsto> ''''),
                         file_name_calls := file_name_calls st @ [handle],
                         stderr_lines := stderr_lines st @ [err]\<rparr>))
      | Some cached \<Rightarrow> (cached, st))"

subsection \<open>Resolving one address\<close>

text \<open>
  Each variant of \<open>get_frame_object_info\<close> starts from a default-constructed frame
  (empty \<open>object_path\<close>) with \<open>raw_address = address\<close> and
  \<open>object_address = 0\<close>, and returns it as it is when the lookup fails.
\<close>

definition unresolved_frame :: "('w::len) word \<Rightarrow> 'w object_frame" where
  "unresolved_frame address =
     \<lparr>raw_address = address, object_address = 0, object_path = ''''\<rparr>"

definition get_frame_object_info_dl_find_object ::
  "('w::len) os \<Rightarrow> 'w statics \<Rightarrow> 'w word \<Rightarrow> 'w object_frame \<times> 'w statics" where
  "get_frame_object_info_dl_find_object env st address =
     (let frame = unresolved_frame address
      in case dl_find_object env address of
           Some result \<Rightarrow>
             (let frame1 =
                    (case l_name result of
                       Some (c # cs) \<Rightarrow> frame\<lparr>object_path := c # cs\<rparr>
                     | _ \<Rightarrow>
                         (case readlink_proc_self_exe env of
                            None \<Rightarrow> frame
                          | Some buffer \<Rightarrow> frame\<lparr>object_path := buffer\<rparr>));
                  (base, st1) = get_module_image_base env st (object_path frame1)
              in (frame1\<lparr>object_address := address - l_addr result + base\<rparr>, st1))
         | None \<Rightarrow> (frame, st))"

definition get_frame_object_info_dladdr ::
  "('w::len) os \<Rightarrow> 'w statics \<Rightarrow> 'w word \<Rightarrow> 'w object_frame \<times> 'w statics" where
  "get_frame_object_info_dladdr env st address =
     (let frame = unresolved_frame address
      in case dladdr env address of
           Some info \<Rightarrow>
             (let (base, st1) = get_module_image_base env st (dli_fname info)
              in (frame\<lparr>object_path := dli_fname info,
                        object_address := address - dli_fbase info + base\<rparr>, st1))
         | None \<Rightarrow> (frame, st))"

definition get_frame_object_info_windows ::
  "('w::len) os \<Rightarrow> 'w statics \<Rightarrow> 'w word \<Rightarrow> 'w object_frame \<times> 'w statics" where
  "get_frame_object_info_windows env st address =
     (let frame = unresolved_frame address
      in case GetModuleHandleExA env address of
           Inr handle \<Rightarrow>
             (let (path, st1) = get_module_name env st handle;
                  (base, st2) = get_module_image_base env st1 path
              in (frame\<lparr>object_path := path,
                        object_address := address - handle + base\<rparr>, st2))
         | Inl err \<Rightarrow> (frame, st\<lparr>stderr_lines := stderr_lines st @ [err]\<rparr>))"

definition get_frame_object_info ::
  "build \<Rightarrow> ('w::len) os \<Rightarrow> 'w statics \<Rightarrow> 'w word \<Rightarrow> 'w object_frame \<times> 'w statics" where
  "get_frame_object_info b env st address =
     (case b of
        Dl_find_object \<Rightarrow> get_frame_object_info_dl_find_object env st address
      | Dladdr \<Rightarrow> get_frame_object_info_dladdr env st address
      | Windows \<Rightarrow> get_frame_object_info_windows env st address)"


subsection \<open>Batches and safe frames\<close>

text \<open>The \<open>for\<close> loop of \<open>get_frames_object_info\<close>: \<open>frames\<close> grows by \<open>push_back\<close>.\<close>

fun get_frames_object_info_loop ::
  "build \<Rightarrow> ('w::len) os \<Rightarrow> 'w statics \<Rightarrow> 'w object_frame list \<Rightarrow> 'w word list
     \<Rightarrow> 'w object_frame list \<times> 'w statics" where
  "get_frames_object_info_loop b env st frames [] = (frames, st)"
| "get_frames_object_info_loop b env st frames (address # addresses) =
     (let (frame, st1) = get_frame_object_info b env st address
      in get_frames_object_info_loop b env st1 (frames @ [frame]) addresses)"

definition get_frames_object_info ::
  "build \<Rightarrow> ('w::len) os \<Rightarrow> 'w statics \<Rightarrow> 'w word list
     \<Rightarrow> 'w object_frame list \<times> 'w statics" where
  "get_frames_object_info b env st addresses =
     get_frames_object_info_loop b env st [] addresses"

definition resolve_safe_object_frame ::
  "('w::len) os \<Rightarrow> 'w statics \<Rightarrow> 'w safe_object_frame \<Rightarrow> 'w object_frame \<times> 'w statics" where
  "resolve_safe_object_frame env st frame =
     (let (base, st1) = get_module_image_base env st (safe_object_path frame)
      in (\<lparr>raw_address = safe_raw_address frame,
           object_address = address_relative_to_object_start frame + base,
           object_path = safe_object_path frame\<rparr>, st1))"

subsection \<open>The life of a process\<close>

text \<open>
  The caches are function-local statics: they start empty and change only through calls
  of the functions of the header. A process history is therefore a list of calls, each
  paired with the answers the operating system and the binary-format reader give at that
  moment (files and loaded modules may change between calls). \<open>exec\<close> keeps the
  statics a call leaves behind and \<open>run\<close> executes a history in order. The two
  cache functions run under their mutex from the lookup to the insertion, so calls from
  several threads take effect one after the other: what threads do together is a history
  of \<open>Module_image_base\<close> and \<open>Module_name\<close> calls.
\<close>

datatype ('address, 'safe_frame) call =
    Module_image_base string
  | Module_name 'address
  | Frame_object_info 'address
  | Frames_object_info "'address list"
  | Resolve_safe_object_frame 'safe_frame

definition exec ::
  "build \<Rightarrow> ('w::len) os \<Rightarrow> ('w word, 'w safe_object_frame) call \<Rightarrow> 'w statics
     \<Rightarrow> 'w statics" where
  "exec b env c st =
     (case c of
        Module_image_base p \<Rightarrow> snd (get_module_image_base env st p)
      | Module_name h \<Rightarrow> snd (get_module_name env st h)
      | Frame_object_info a \<Rightarrow> snd (get_frame_object_info b env st a)
      | Frames_object_info as \<Rightarrow> snd (get_frames_object_info b env st as)
      | Resolve_safe_object_frame f \<Rightarrow> snd (resolve_safe_object_frame env st f))"

fun run ::
  "build \<Rightarrow> (('w::len) os \<times> ('w word, 'w safe_object_frame) call) list \<Rightarrow> 'w statics
     \<Rightarrow> 'w statics" where
  "run b [] st = st"
| "run b ((env, c) # later) st = run b later (exec b env c st)"

subsection \<open>The capture half of the safe protocol\<close>

text \<open>
  The header holds the resolving half of the safe protocol only
  (\<open>resolve_safe_object_frame\<close>); the functions that capture a safe object frame are
  defined elsewhere. The next three definitions stand for them.
\<close>

text \<open>
  Modelled from the spec: the capturing code is missing; this is the Module record of
  section 3, \<open>{ path, runtime_base }\<close>, which the Module Locator returns for an address
  it can place.
\<close>

record (overloaded) ('w::len) module_record =
  module_path :: string
  runtime_base :: "'w word"

text \<open>
  Modelled from the spec: the capturing code is missing; this is the Module Locator of
  section 4.1, \<open>locate(address) -> ModuleRecord?\<close>, with its three strategies and its
  failure rule: any OS call failure degrades to "none" for that address (sections 4.1
  and 7).
  \<^item> Fast loader path: the loader gives the load bias and a name; if the name is empty
    the path of the main executable is recovered by self-identification
    (\<open>readlink\<close>), and if that fails the result is "none".
  \<^item> Symbol-probe path: the probe gives runtime base and path.
  \<^item> Windows path: the address is resolved to a module handle, which is the runtime
    base, and the handle to a path through the cached lookup \<open>get_module_name\<close> of
    the header. That lookup answers a failed (also a cached failed) OS call with the
    empty string, and the result is "none" then. Failures are logged.
  This differs from \<open>get_frame_object_info\<close>, which carries on with an empty path
  when the path cannot be recovered.
\<close>

definition locate ::
  "build \<Rightarrow> ('w::len) os \<Rightarrow> 'w statics \<Rightarrow> 'w word
     \<Rightarrow> 'w module_record option \<times> 'w statics" where
  "locate b env st address =
     (case b of
        Dl_find_object \<Rightarrow>
          (case dl_find_object env address of
             None \<Rightarrow> (None, st)
           | Some result \<Rightarrow>
               (case l_name result of
                  Some (c # cs) \<Rightarrow>
                    (Some \<lparr>module_path = c # cs, runtime_base = l_addr result\<rparr>, st)
                | _ \<Rightarrow>
                    (case readlink_proc_self_exe env of
                       None \<Rightarrow> (None, st)
                     | Some buffer \<Rightarrow>
                         (Some \<lparr>module_path = buffer, runtime_base = l_addr result\<rparr>,
                          st))))
      | Dladdr \<Rightarrow>
          (case dladdr env address of
             None \<Rightarrow> (None, st)
           | Some info \<Rightarrow>
               (Some \<lparr>module_path = dli_fname info, runtime_base = dli_fbase info\<rparr>, st))
      | Windows \<Rightarrow>
          (case GetModuleHandleExA env address of
             Inl err \<Rightarrow> (None, st\<lparr>stderr_lines := stderr_lines st @ [err]\<rparr>)
           | Inr handle \<Rightarrow>
               (let (name, st1) = get_module_name env st handle
                in (if name = '''' then None
                    else Some \<lparr>module_path = name, runtime_base = handle\<rparr>, st1))))"


subsection \<open>Relations between states of the statics\<close>

text \<open>
  \<open>caches_grow\<close>: no entry of either cache is removed or changed. \<open>calls_logged\<close>:
  each cache holds exactly the keys that were handed to the reader (to
  \<open>GetModuleFileNameA\<close>), each of them once. \<open>filled_from env st st'\<close>: \<open>st'\<close>
  has the entries of \<open>st\<close> and, besides, only entries that a miss under \<open>env\<close>
  would store. \<open>kept\<close> joins the first two: the caches grow and, if the calls were
  logged before, they still are. \<open>reader_cached reader st\<close>: every cached image base
  is the answer of \<open>reader\<close>.
\<close>

definition caches_grow :: "('w::len) statics \<Rightarrow> 'w statics \<Rightarrow> bool" where
  "caches_grow st st' \<longleftrightarrow>
     image_base_cache st \<subseteq>\<^sub>m image_base_cache st' \<and>
     module_name_cache st \<subseteq>\<^sub>m module_name_cache st'"

definition calls_logged :: "('w::len) statics \<Rightarrow> bool" where
  "calls_logged st \<longleftrightarrow>
     distinct (parse_calls st) \<and> set (parse_calls st) = dom (image_base_cache st) \<and>
     distinct (file_name_calls st) \<and> set (file_name_calls st) = dom (module_name_cache st)"

definition kept :: "('w::len) statics \<Rightarrow> 'w statics \<Rightarrow> bool" where
  "kept st st' \<longleftrightarrow> caches_grow st st' \<and> (calls_logged st \<longrightarrow> calls_logged st')"

definition reader_cached :: "(string \<Rightarrow> ('w::len) word) \<Rightarrow> 'w statics \<Rightarrow> bool" where
  "reader_cached reader st \<longleftrightarrow> (\<forall>p v. image_base_cache st p = Some v \<longrightarrow> v = reader p)"

definition filled_from :: "('w::len) os \<Rightarrow> 'w statics \<Rightarrow> 'w statics \<Rightarrow> bool" where
  "filled_from env st st' \<longleftrightarrow>
     (\<forall>p. image_base_cache st' p = image_base_cache st p \<or>
          image_base_cache st p = None \<and>
          image_base_cache st' p = Some (binary_image_base env p)) \<and>
     (\<forall>h. module_name_cache st' h = module_name_cache st h \<or>
          module_name_cache st h = None \<and>
          module_name_cache st' h =
            Some (case GetModuleFileNameA env h of Inr p \<Rightarrow> p | Inl err \<Rightarrow> ''''))"

subsection \<open>A concrete process\<close>

text \<open>
  The scenario of the specification on a 64-bit machine: \<open>main\<close> loaded at
  \<open>0x1000\<close> with link-time base \<open>0\<close>, \<open>libfoo\<close> loaded at \<open>0x5000\<close> with
  link-time base \<open>0x400\<close>, nothing else mapped. The loader reports the main executable
  with an empty name. \<open>unreadable_os\<close> is the same process at a moment when no binary
  can be read (the reader returns its zero sentinel), \<open>no_proc_os\<close> at a moment when
  \<open>/proc/self/exe\<close> cannot be read, and \<open>renamed_os\<close> at a moment when
  \<open>GetModuleFileNameA\<close> succeeds for every handle.
\<close>

definition example_os :: "64 os" where
  "example_os =
     \<lparr>dl_find_object = (\<lambda>a.
        if 0x1000 \<le> a \<and> a < 0x2000 then Some \<lparr>l_name = Some '''', l_addr = 0x1000\<rparr>
        else if 0x5000 \<le> a \<and> a < 0x6000
          then Some \<lparr>l_name = Some ''/usr/lib/libfoo.so'', l_addr = 0x5000\<rparr>
        else None),
      readlink_proc_self_exe = Some ''/usr/bin/main'',
      dladdr = (\<lambda>a.
        if 0x1000 \<le> a \<and> a < 0x2000
          then Some \<lparr>dli_fname = ''/usr/bin/main'', dli_fbase = 0x1000\<rparr>
        else if 0x5000 \<le> a \<and> a < 0x6000
          then Some \<lparr>dli_fname = ''/usr/lib/libfoo.so'', dli_fbase = 0x5000\<rparr>
        else None),
      GetModuleHandleExA = (\<lambda>a.
        if 0x1000 \<le> a \<and> a < 0x2000 then Inr 0x1000
        else if 0x5000 \<le> a \<and> a < 0x6000 then Inr 0x5000
        else Inl 126),
      GetModuleFileNameA = (\<lambda>h.
        if h = 0x1000 then Inr ''/usr/bin/main''
        else if h = 0x5000 then Inr ''/usr/lib/libfoo.so''
        else Inl 6),
      binary_image_base = (\<lambda>p.
        if p = ''/usr/bin/main'' then 0
        else if p = ''/usr/lib/libfoo.so'' then 0x400
        else 0)\<rparr>"

definition unreadable_os :: "64 os" where
  "unreadable_os = example_os\<lparr>binary_image_base := (\<lambda>p. 0)\<rparr>"

definition no_proc_os :: "64 os" where
  "no_proc_os = example_os\<lparr>readlink_proc_self_exe := None\<rparr>"

definition renamed_os :: "64 os" where
  "renamed_os = example_os\<lparr>GetModuleFileNameA := (\<lambda>h. Inr ''C:/app/plugin.dll'')\<rparr>"

section \<open>Properties\<close>

subsection \<open>What one call returns and leaves behind\<close>

lemma get_module_image_base_cases:
  "get_module_image_base env st p =
     (if image_base_cache st p = None
      then (binary_image_base env p,
            st\<lparr>image_base_cache := (image_base_cache st)(p \<mapsto> binary_image_base env p),
               parse_calls := parse_calls st @ [p]\<rparr>)
      else (the (image_base_cache st p), st))"
  by (auto simp: get_module_image_base_def Let_def split: option.splits)

lemma fst_get_module_image_base:
  "fst (get_module_image_base env st p) =
     (case image_base_cache st p of None \<Rightarrow> binary_image_base env p | Some v \<Rightarrow> v)"
  by (simp add: get_module_image_base_def Let_def split: option.splits)

lemma snd_get_module_image_base:
  "snd (get_module_image_base env st p) =
     (case image_base_cache st p of
        None \<Rightarrow> st\<lparr>image_base_cache := (image_base_cache st)(p \<mapsto> binary_image_base env p),
                   parse_calls := parse_calls st @ [p]\<rparr>
      | Some v \<Rightarrow> st)"
  by (simp add: get_module_image_base_def Let_def split: option.splits)

lemma fst_get_module_name:
  "fst (get_module_name env st h) =
     (case module_name_cache st h of
        None \<Rightarrow> (case GetModuleFileNameA env h of Inr p \<Rightarrow> p | Inl err \<Rightarrow> '''')
      | Some v \<Rightarrow> v)"
  by (simp add: get_module_name_def split: option.splits sum.splits)

lemma get_module_name_image_base_cache:
  "image_base_cache (snd (get_module_name env st h)) = image_base_cache st"
  by (simp add: get_module_name_def split: option.splits sum.splits)

lemma module_name_cache_get_module_name:
  "module_name_cache (snd (get_module_name env st h)) =
     (case module_name_cache st h of
        None \<Rightarrow> (module_name_cache st)
                  (h \<mapsto> case GetModuleFileNameA env h of Inr p \<Rightarrow> p | Inl err \<Rightarrow> '''')
      | Some v \<Rightarrow> module_name_cache st)"
  by (simp add: get_module_name_def split: option.splits sum.splits)

lemma fst_get_frame_object_info_dl_find_object:
  "fst (get_frame_object_info_dl_find_object env st a) =
     (case dl_find_object env a of
        None \<Rightarrow> unresolved_frame a
      | Some lm \<Rightarrow>
          (let p = (case l_name lm of
                      Some (c # cs) \<Rightarrow> c # cs
                    | _ \<Rightarrow> (case readlink_proc_self_exe env of None \<Rightarrow> '''' | Some q \<Rightarrow> q))
           in \<lparr>raw_address = a,
               object_address = a - l_addr lm + fst (get_module_image_base env st p),
               object_path = p\<rparr>))"
  by (simp add: get_frame_object_info_dl_find_object_def unresolved_frame_def Let_def
        case_prod_beta split: option.splits list.splits)

lemma fst_get_frame_object_info_dladdr:
  "fst (get_frame_object_info_dladdr env st a) =
     (case dladdr env a of
        None \<Rightarrow> unresolved_frame a
      | Some info \<Rightarrow>
          \<lparr>raw_address = a,
           object_address =
             a - dli_fbase info + fst (get_module_image_base env st (dli_fname info)),
           object_path = dli_fname info\<rparr>)"
  by (simp add: get_frame_object_info_dladdr_def unresolved_frame_def Let_def
        case_prod_beta split: option.splits)

lemma fst_get_frame_object_info_windows:
  "fst (get_frame_object_info_windows env st a) =
     (case GetModuleHandleExA env a of
        Inl err \<Rightarrow> unresolved_frame a
      | Inr h \<Rightarrow>
          \<lparr>raw_address = a,
           object_address =
             a - h + fst (get_module_image_base env st (fst (get_module_name env st h))),
           object_path = fst (get_module_name env st h)\<rparr>)"
  by (simp add: get_frame_object_info_windows_def unresolved_frame_def Let_def
        case_prod_beta fst_get_module_image_base get_module_name_image_base_cache
        split: sum.splits)

subsection \<open>Cache entries are never lost\<close>

lemma caches_grow_refl: "caches_grow st st"
  by (simp add: caches_grow_def)

lemma caches_grow_trans: "caches_grow a b \<Longrightarrow> caches_grow b c \<Longrightarrow> caches_grow a c"
  by (auto simp: caches_grow_def intro: map_le_trans)

lemma get_module_image_base_grows: "caches_grow st (snd (get_module_image_base env st p))"
  by (auto simp: caches_grow_def get_module_image_base_cases map_le_def)

lemma get_module_name_grows: "caches_grow st (snd (get_module_name env st h))"
  by (auto simp: caches_grow_def get_module_name_def map_le_def split: option.splits sum.splits)

lemma get_module_image_base_logged:
  "calls_logged st \<Longrightarrow> calls_logged (snd (get_module_image_base env st p))"
  by (auto simp: calls_logged_def get_module_image_base_cases)

lemma get_module_name_logged:
  "calls_logged st \<Longrightarrow> calls_logged (snd (get_module_name env st h))"
  by (auto simp: calls_logged_def get_module_name_def split: option.splits sum.splits)

lemma kept_refl: "kept st st"
  by (simp add: kept_def caches_grow_refl)

lemma kept_trans: "kept a b \<Longrightarrow> kept b c \<Longrightarrow> kept a c"
  by (auto simp: kept_def intro: caches_grow_trans)

lemma get_module_image_base_kept: "kept st (snd (get_module_image_base env st p))"
  by (simp add: kept_def get_module_image_base_grows get_module_image_base_logged)

lemma get_module_name_kept: "kept st (snd (get_module_name env st h))"
  by (simp add: kept_def get_module_name_grows get_module_name_logged)

lemma stderr_kept: "kept st (st\<lparr>stderr_lines := l\<rparr>)"
  by (simp add: kept_def caches_grow_def calls_logged_def)

lemma get_frame_object_info_dl_find_object_state:
  "snd (get_frame_object_info_dl_find_object env st a) = st \<or>
   (\<exists>p. snd (get_frame_object_info_dl_find_object env st a) =
          snd (get_module_image_base env st p))"
  by (auto simp: get_frame_object_info_dl_find_object_def Let_def case_prod_beta
        split: option.splits list.splits)

lemma get_frame_object_info_dladdr_state:
  "snd (get_frame_object_info_dladdr env st a) = st \<or>
   (\<exists>p. snd (get_frame_object_info_dladdr env st a) =
          snd (get_module_image_base env st p))"
  by (auto simp: get_frame_object_info_dladdr_def Let_def case_prod_beta
        split: option.splits)

lemma get_frame_object_info_windows_state:
  "(\<exists>err. snd (get_frame_object_info_windows env st a) =
            st\<lparr>stderr_lines := stderr_lines st @ [err]\<rparr>) \<or>
   (\<exists>h p. snd (get_frame_object_info_windows env st a) =
            snd (get_module_image_base env (snd (get_module_name env st h)) p))"
  by (auto simp: get_frame_object_info_windows_def Let_def case_prod_beta
        split: sum.splits)

lemma get_frame_object_info_kept: "kept st (snd (get_frame_object_info b env st a))"
proof (cases b)
  case Dl_find_object
  then show ?thesis
    using get_frame_object_info_dl_find_object_state [of env st a]
    by (auto simp: get_frame_object_info_def kept_refl get_module_image_base_kept)
next
  case Dladdr
  then show ?thesis
    using get_frame_object_info_dladdr_state [of env st a]
    by (auto simp: get_frame_object_info_def kept_refl get_module_image_base_kept)
next
  case Windows
  then show ?thesis
    using get_frame_object_info_windows_state [of env st a]
    by (auto simp: get_frame_object_info_def stderr_kept
          intro: kept_trans [OF get_module_name_kept get_module_image_base_kept])
qed

lemma get_frames_object_info_loop_kept:
  "kept st (snd (get_frames_object_info_loop b env st frames addresses))"
proof (induction addresses arbitrary: st frames)
  case Nil
  show ?case by (simp add: kept_refl)
next
  case (Cons a addresses)
  show ?case
    using kept_trans [OF get_frame_object_info_kept Cons.IH]
    by (simp add: case_prod_beta)
qed

lemma resolve_safe_object_frame_kept:
  "kept st (snd (resolve_safe_object_frame env st f))"
  by (simp add: resolve_safe_object_frame_def case_prod_beta get_module_image_base_kept)

lemma exec_kept: "kept st (exec b env c st)"
  by (cases c)
     (simp_all add: exec_def get_module_image_base_kept get_module_name_kept
        get_frame_object_info_kept get_frames_object_info_def
        get_frames_object_info_loop_kept resolve_safe_object_frame_kept)

lemma run_kept: "kept st (run b history st)"
proof (induction history arbitrary: st)
  case Nil
  show ?case by (simp add: kept_refl)
next
  case (Cons step history)
  obtain env c where step: "step = (env, c)" by (cases step)
  show ?case
    unfolding step using kept_trans [OF exec_kept Cons.IH] by simp
qed

lemma process_start_logged: "calls_logged process_start"
  by (simp add: calls_logged_def process_start_def)

lemma run_logged: "calls_logged (run b history process_start)"
proof -
  have "kept process_start (run b history process_start)"
    by (rule run_kept)
  then show ?thesis
    by (simp add: kept_def process_start_logged)
qed

lemma distinct_count_list_le: "distinct xs \<Longrightarrow> count_list xs x \<le> 1"
  by (induction xs) auto

lemma image_base_cached_after:
  "image_base_cache (snd (get_module_image_base env st p)) p =
     Some (fst (get_module_image_base env st p))"
  by (auto simp: get_module_image_base_cases)

lemma module_name_cached_after:
  "module_name_cache (snd (get_module_name env st h)) h =
     Some (fst (get_module_name env st h))"
  by (auto simp: get_module_name_def split: option.splits sum.splits)

lemma image_base_hit:
  "image_base_cache st p = Some v \<Longrightarrow> kept st st' \<Longrightarrow>
   get_module_image_base env st' p = (v, st')"
  by (auto simp: kept_def caches_grow_def map_le_def get_module_image_base_def dom_def
        split: option.splits)

lemma module_name_hit:
  "module_name_cache st h = Some v \<Longrightarrow> kept st st' \<Longrightarrow>
   get_module_name env st' h = (v, st')"
  by (auto simp: kept_def caches_grow_def map_le_def get_module_name_def dom_def
        split: option.splits)

subsection \<open>A batch sees the answers of its first moment\<close>

lemma filled_from_refl: "filled_from env st st"
  by (simp add: filled_from_def)

lemma filled_from_image_base:
  assumes "filled_from env st st'"
  shows "fst (get_module_image_base env st' p) = fst (get_module_image_base env st p)"
proof -
  have "image_base_cache st' p = image_base_cache st p \<or>
        image_base_cache st p = None \<and>
        image_base_cache st' p = Some (binary_image_base env p)"
    using assms by (simp add: filled_from_def)
  then show ?thesis
    by (auto simp: fst_get_module_image_base)
qed

lemma filled_from_module_name:
  assumes "filled_from env st st'"
  shows "fst (get_module_name env st' h) = fst (get_module_name env st h)"
proof -
  have "module_name_cache st' h = module_name_cache st h \<or>
        module_name_cache st h = None \<and>
        module_name_cache st' h =
          Some (case GetModuleFileNameA env h of Inr p \<Rightarrow> p | Inl err \<Rightarrow> '''')"
    using assms by (simp add: filled_from_def)
  then show ?thesis
    by (auto simp: fst_get_module_name)
qed

lemma filled_from_get_module_image_base:
  assumes "filled_from env st st'"
  shows "filled_from env st (snd (get_module_image_base env st' p))"
proof (cases "image_base_cache st' p")
  case None
  have "image_base_cache st' p = image_base_cache st p \<or>
        image_base_cache st p = None \<and>
        image_base_cache st' p = Some (binary_image_base env p)"
    using assms by (simp add: filled_from_def)
  with None have "image_base_cache st p = None" by auto
  with assms None show ?thesis
    by (simp add: snd_get_module_image_base filled_from_def)
next
  case (Some v)
  with assms show ?thesis
    by (simp add: snd_get_module_image_base)
qed

lemma filled_from_get_module_name:
  assumes "filled_from env st st'"
  shows "filled_from env st (snd (get_module_name env st' h))"
proof (cases "module_name_cache st' h")
  case None
  have "module_name_cache st' h = module_name_cache st h \<or>
        module_name_cache st h = None \<and>
        module_name_cache st' h =
          Some (case GetModuleFileNameA env h of Inr p \<Rightarrow> p | Inl err \<Rightarrow> '''')"
    using assms by (simp add: filled_from_def)
  with None have "module_name_cache st h = None" by auto
  with assms None show ?thesis
    by (simp add: filled_from_def module_name_cache_get_module_name
          get_module_name_image_base_cache)
next
  case (Some v)
  with assms show ?thesis
    by (simp add: filled_from_def module_name_cache_get_module_name
          get_module_name_image_base_cache)
qed

lemma filled_from_stderr:
  "filled_from env st st' \<Longrightarrow> filled_from env st (st'\<lparr>stderr_lines := l\<rparr>)"
  by (simp add: filled_from_def)

lemma filled_from_get_frame_object_info:
  assumes "filled_from env st st'"
  shows "filled_from env st (snd (get_frame_object_info b env st' a))"
proof (cases b)
  case Dl_find_object
  then show ?thesis
    using get_frame_object_info_dl_find_object_state [of env st' a] assms
    by (auto simp: get_frame_object_info_def filled_from_get_module_image_base)
next
  case Dladdr
  then show ?thesis
    using get_frame_object_info_dladdr_state [of env st' a] assms
    by (auto simp: get_frame_object_info_def filled_from_get_module_image_base)
next
  case Windows
  then show ?thesis
    using get_frame_object_info_windows_state [of env st' a] assms
    by (auto simp: get_frame_object_info_def filled_from_stderr
          filled_from_get_module_image_base filled_from_get_module_name)
qed

lemma filled_from_frame:
  assumes "filled_from env st st'"
  shows "fst (get_frame_object_info b env st' a) = fst (get_frame_object_info b env st a)"
  by (cases b)
     (simp_all add: get_frame_object_info_def fst_get_frame_object_info_dl_find_object
        fst_get_frame_object_info_dladdr fst_get_frame_object_info_windows
        filled_from_image_base [OF assms] filled_from_module_name [OF assms] Let_def
        split: option.splits sum.splits)

lemma get_frames_object_info_loop_frames:
  "filled_from env st st' \<Longrightarrow>
   fst (get_frames_object_info_loop b env st' frames addresses) =
     frames @ map (\<lambda>a. fst (get_frame_object_info b env st a)) addresses"
proof (induction addresses arbitrary: st' frames)
  case Nil
  show ?case by simp
next
  case (Cons a addresses)
  have "filled_from env st (snd (get_frame_object_info b env st' a))"
    by (rule filled_from_get_frame_object_info [OF Cons.prems])
  from Cons.IH [OF this] show ?case
    by (simp add: case_prod_beta filled_from_frame [OF Cons.prems])
qed

subsection \<open>The locator and the resolver\<close>


lemma snd_locate:
  "snd (locate b env st a) = st \<or>
   (\<exists>err. snd (locate b env st a) = st\<lparr>stderr_lines := stderr_lines st @ [err]\<rparr>) \<or>
   (\<exists>h. snd (locate b env st a) = snd (get_module_name env st h))"
  by (cases b)
     (auto simp: locate_def case_prod_beta split: option.splits list.splits sum.splits)

lemma locate_kept: "kept st (snd (locate b env st a))"
  using snd_locate [of b env st a]
  by (auto simp: kept_refl stderr_kept get_module_name_kept)








text \<open>
  An unresolved safe frame holds the empty path, and resolving it asks the image-base
  cache for that path. If the cache answered anything but \<open>0\<close> there, the resolved
  frame would differ from the unresolved frame of the direct call; a reader that fails
  closed on the empty path rules this out.
\<close>

lemma empty_path_base_is_added:
  "fst (resolve_safe_object_frame (example_os\<lparr>binary_image_base := (\<lambda>p. 0x400)\<rparr>)
          process_start
          \<lparr>safe_raw_address = 0x9000, address_relative_to_object_start = 0,
           safe_object_path = ''''\<rparr>) =
     \<lparr>raw_address = 0x9000, object_address = 0x400, object_path = ''''\<rparr>"
  by (simp add: resolve_safe_object_frame_def case_prod_beta fst_get_module_image_base
        process_start_def)

subsection \<open>Cached bases are the reader's answers\<close>

lemma reader_cached_start: "reader_cached reader process_start"
  by (simp add: reader_cached_def process_start_def)

lemma reader_cached_same_cache:
  "image_base_cache st' = image_base_cache st \<Longrightarrow> reader_cached reader st \<Longrightarrow>
   reader_cached reader st'"
  by (simp add: reader_cached_def)

lemma reader_cached_get_module_image_base:
  "reader_cached (binary_image_base env) st \<Longrightarrow>
   reader_cached (binary_image_base env) (snd (get_module_image_base env st p))"
  by (auto simp: reader_cached_def snd_get_module_image_base split: option.splits)

lemma reader_cached_get_module_name:
  "reader_cached reader st \<Longrightarrow> reader_cached reader (snd (get_module_name env st h))"
  by (rule reader_cached_same_cache [OF get_module_name_image_base_cache])

lemma reader_cached_stderr:
  "reader_cached reader st \<Longrightarrow> reader_cached reader (st\<lparr>stderr_lines := l\<rparr>)"
  by (simp add: reader_cached_def)

lemma reader_cached_get_frame_object_info:
  assumes "reader_cached (binary_image_base env) st"
  shows "reader_cached (binary_image_base env) (snd (get_frame_object_info b env st a))"
proof (cases b)
  case Dl_find_object
  then show ?thesis
    using get_frame_object_info_dl_find_object_state [of env st a] assms
    by (auto simp: get_frame_object_info_def reader_cached_get_module_image_base)
next
  case Dladdr
  then show ?thesis
    using get_frame_object_info_dladdr_state [of env st a] assms
    by (auto simp: get_frame_object_info_def reader_cached_get_module_image_base)
next
  case Windows
  then show ?thesis
    using get_frame_object_info_windows_state [of env st a] assms
    by (auto simp: get_frame_object_info_def reader_cached_stderr
          reader_cached_get_module_image_base reader_cached_get_module_name)
qed

lemma reader_cached_get_frames_object_info_loop:
  "reader_cached (binary_image_base env) st \<Longrightarrow>
   reader_cached (binary_image_base env)
     (snd (get_frames_object_info_loop b env st frames addresses))"
proof (induction addresses arbitrary: st frames)
  case Nil
  then show ?case by simp
next
  case (Cons a addresses)
  from Cons.IH [OF reader_cached_get_frame_object_info [OF Cons.prems]]
  show ?case by (simp add: case_prod_beta)
qed

lemma reader_cached_exec:
  "reader_cached (binary_image_base env) st \<Longrightarrow>
   reader_cached (binary_image_base env) (exec b env c st)"
  by (cases c)
     (simp_all add: exec_def reader_cached_get_module_image_base
        reader_cached_get_module_name reader_cached_get_frame_object_info
        get_frames_object_info_def reader_cached_get_frames_object_info_loop
        resolve_safe_object_frame_def case_prod_beta)

lemma reader_cached_run:
  "\<forall>step \<in> set history. binary_image_base (fst step) = reader \<Longrightarrow>
   reader_cached reader st \<Longrightarrow> reader_cached reader (run b history st)"
proof (induction history arbitrary: st)
  case Nil
  then show ?case by simp
next
  case (Cons step history)
  obtain env c where step: "step = (env, c)" by (cases step)
  with Cons.prems have env: "binary_image_base env = reader" by simp
  with Cons.prems have "reader_cached reader (exec b env c st)"
    using reader_cached_exec [of env st b c] by simp
  with Cons show ?case by (simp add: step)
qed

lemma image_base_is_readers:
  assumes "\<forall>step \<in> set history. binary_image_base (fst step) = binary_image_base env"
  shows "fst (get_module_image_base env (run b history process_start) p) =
           binary_image_base env p"
proof -
  have "reader_cached (binary_image_base env) (run b history process_start)"
    by (rule reader_cached_run [OF assms reader_cached_start])
  then show ?thesis
    by (auto simp: fst_get_module_image_base reader_cached_def split: option.splits)
qed

section \<open>The claims\<close>

text \<open>
  C1. When the module lookup finds the module of address \<open>a\<close>, with path \<open>p\<close> and
  runtime base \<open>r\<close>, the returned frame has \<open>object_path = p\<close> and
  \<open>object_address = a - r + b\<close>, where \<open>b\<close> is what the image-base cache returns for
  \<open>p\<close>. One conjunct for each build: \<open>dladdr\<close> reports path and base;
  \<open>_dl_find_object\<close> reports the base and either a non-empty name or, for the main
  executable, a name recovered by \<open>readlink\<close>; on Windows the base is the module handle
  and the path is what \<open>get_module_name\<close> returns for it. In a process whose
  reader never changes its answers the cached value is the reader's answer for \<open>p\<close>
  (\<open>image_base_is_readers\<close>).
\<close>

theorem get_frame_object_info_resolved:
  "(dladdr env a = Some info \<longrightarrow>
      fst (get_frame_object_info Dladdr env st a) =
        \<lparr>raw_address = a,
         object_address =
           a - dli_fbase info + fst (get_module_image_base env st (dli_fname info)),
         object_path = dli_fname info\<rparr>) \<and>
   (dl_find_object env a = Some lm \<and> l_name lm = Some p \<and> p \<noteq> '''' \<longrightarrow>
      fst (get_frame_object_info Dl_find_object env st a) =
        \<lparr>raw_address = a,
         object_address = a - l_addr lm + fst (get_module_image_base env st p),
         object_path = p\<rparr>) \<and>
   (dl_find_object env a = Some lm \<and> (l_name lm = None \<or> l_name lm = Some '''') \<and>
    readlink_proc_self_exe env = Some q \<longrightarrow>
      fst (get_frame_object_info Dl_find_object env st a) =
        \<lparr>raw_address = a,
         object_address = a - l_addr lm + fst (get_module_image_base env st q),
         object_path = q\<rparr>) \<and>
   (GetModuleHandleExA env a = Inr h \<and> fst (get_module_name env st h) = w \<longrightarrow>
      fst (get_frame_object_info Windows env st a) =
        \<lparr>raw_address = a,
         object_address = a - h + fst (get_module_image_base env st w),
         object_path = w\<rparr>)"
  by (auto simp: get_frame_object_info_def fst_get_frame_object_info_dl_find_object
        fst_get_frame_object_info_dladdr fst_get_frame_object_info_windows Let_def
        split: list.splits)

theorem get_frame_object_info_resolved_witness:
  "dladdr example_os 0x5080 =
     Some \<lparr>dli_fname = ''/usr/lib/libfoo.so'', dli_fbase = 0x5000\<rparr> \<and>
   fst (get_frame_object_info Dladdr example_os process_start 0x5080) =
     \<lparr>raw_address = 0x5080, object_address = 0x480,
      object_path = ''/usr/lib/libfoo.so''\<rparr> \<and>
   dl_find_object example_os 0x1050 = Some \<lparr>l_name = Some '''', l_addr = 0x1000\<rparr> \<and>
   readlink_proc_self_exe example_os = Some ''/usr/bin/main'' \<and>
   fst (get_frame_object_info Dl_find_object example_os process_start 0x1050) =
     \<lparr>raw_address = 0x1050, object_address = 0x50, object_path = ''/usr/bin/main''\<rparr> \<and>
   dl_find_object example_os 0x5080 =
     Some \<lparr>l_name = Some ''/usr/lib/libfoo.so'', l_addr = 0x5000\<rparr> \<and>
   fst (get_frame_object_info Dl_find_object example_os process_start 0x5080) =
     \<lparr>raw_address = 0x5080, object_address = 0x480,
      object_path = ''/usr/lib/libfoo.so''\<rparr> \<and>
   GetModuleHandleExA example_os 0x5080 = Inr 0x5000 \<and>
   fst (get_module_name example_os process_start 0x5000) = ''/usr/lib/libfoo.so'' \<and>
   fst (get_frame_object_info Windows example_os process_start 0x5080) =
     \<lparr>raw_address = 0x5080, object_address = 0x480,
      object_path = ''/usr/lib/libfoo.so''\<rparr>"
proof -
  have k: "dl_find_object example_os 0x5080 =
             Some \<lparr>l_name = Some ''/usr/lib/libfoo.so'', l_addr = 0x5000\<rparr>"
    by (simp add: example_os_def)
  have d: "dladdr example_os 0x5080 =
             Some \<lparr>dli_fname = ''/usr/lib/libfoo.so'', dli_fbase = 0x5000\<rparr>"
    by (simp add: example_os_def)
  have l: "dl_find_object example_os 0x1050 = Some \<lparr>l_name = Some '''', l_addr = 0x1000\<rparr>"
    by (simp add: example_os_def)
  have r: "readlink_proc_self_exe example_os = Some ''/usr/bin/main''"
    by (simp add: example_os_def)
  have g: "GetModuleHandleExA example_os 0x5080 = Inr 0x5000"
    by (simp add: example_os_def)
  have n: "fst (get_module_name example_os process_start 0x5000) = ''/usr/lib/libfoo.so''"
    by (simp add: fst_get_module_name process_start_def example_os_def)
  have b1: "fst (get_module_image_base example_os process_start ''/usr/lib/libfoo.so'') =
              0x400"
    by (simp add: fst_get_module_image_base process_start_def example_os_def)
  have b2: "fst (get_module_image_base example_os process_start ''/usr/bin/main'') = 0"
    by (simp add: fst_get_module_image_base process_start_def example_os_def)
  have f1: "fst (get_frame_object_info Dladdr example_os process_start 0x5080) =
     \<lparr>raw_address = 0x5080, object_address = 0x480,
      object_path = ''/usr/lib/libfoo.so''\<rparr>"
    using get_frame_object_info_resolved
      [where env = example_os and a = "0x5080" and st = process_start
         and info = "\<lparr>dli_fname = ''/usr/lib/libfoo.so'', dli_fbase = 0x5000\<rparr>",
       THEN conjunct1] d b1
    by simp
  have f2: "fst (get_frame_object_info Dl_find_object example_os process_start 0x1050) =
     \<lparr>raw_address = 0x1050, object_address = 0x50, object_path = ''/usr/bin/main''\<rparr>"
    using get_frame_object_info_resolved
      [where env = example_os and a = "0x1050" and st = process_start
         and lm = "\<lparr>l_name = Some '''', l_addr = 0x1000\<rparr>" and q = "''/usr/bin/main''",
       THEN conjunct2, THEN conjunct2, THEN conjunct1] l r b2
    by simp
  have f3: "fst (get_frame_object_info Windows example_os process_start 0x5080) =
     \<lparr>raw_address = 0x5080, object_address = 0x480,
      object_path = ''/usr/lib/libfoo.so''\<rparr>"
    using get_frame_object_info_resolved
      [where env = example_os and a = "0x5080" and st = process_start
         and h = "0x5000" and w = "''/usr/lib/libfoo.so''",
       THEN conjunct2, THEN conjunct2, THEN conjunct2] g n b1
    by simp
  have f4: "fst (get_frame_object_info Dl_find_object example_os process_start 0x5080) =
     \<lparr>raw_address = 0x5080, object_address = 0x480,
      object_path = ''/usr/lib/libfoo.so''\<rparr>"
    using get_frame_object_info_resolved
      [where env = example_os and a = "0x5080" and st = process_start
         and lm = "\<lparr>l_name = Some ''/usr/lib/libfoo.so'', l_addr = 0x5000\<rparr>"
         and p = "''/usr/lib/libfoo.so''",
       THEN conjunct2, THEN conjunct1] k b1
    by simp
  from d f1 l r f2 k f4 g n f3 show ?thesis by simp
qed

text \<open>
  C2. When the module lookup fails for address \<open>a\<close>, the call returns normally with the
  frame \<open>(a, 0, "")\<close>. Neither cache is read or written, the binary-format reader is
  not called; on Windows one line goes to \<open>stderr\<close>. The code has no \<open>throw\<close>, and
  the model has no error result: returning the frame is all the call can do.
\<close>

theorem get_frame_object_info_not_found:
  "(dladdr env a = None \<longrightarrow>
      get_frame_object_info Dladdr env st a =
        (\<lparr>raw_address = a, object_address = 0, object_path = ''''\<rparr>, st)) \<and>
   (dl_find_object env a = None \<longrightarrow>
      get_frame_object_info Dl_find_object env st a =
        (\<lparr>raw_address = a, object_address = 0, object_path = ''''\<rparr>, st)) \<and>
   (GetModuleHandleExA env a = Inl err \<longrightarrow>
      get_frame_object_info Windows env st a =
        (\<lparr>raw_address = a, object_address = 0, object_path = ''''\<rparr>,
         st\<lparr>stderr_lines := stderr_lines st @ [err]\<rparr>))"
  by (simp add: get_frame_object_info_def get_frame_object_info_dl_find_object_def
        get_frame_object_info_dladdr_def get_frame_object_info_windows_def
        unresolved_frame_def)

theorem get_frame_object_info_not_found_witness:
  "dladdr example_os 0x9000 = None \<and>
   dl_find_object example_os 0x9000 = None \<and>
   GetModuleHandleExA example_os 0x9000 = Inl 126 \<and>
   get_frame_object_info Dladdr example_os process_start 0x9000 =
     (\<lparr>raw_address = 0x9000, object_address = 0, object_path = ''''\<rparr>, process_start) \<and>
   get_frame_object_info Dl_find_object example_os process_start 0x9000 =
     (\<lparr>raw_address = 0x9000, object_address = 0, object_path = ''''\<rparr>, process_start) \<and>
   get_frame_object_info Windows example_os process_start 0x9000 =
     (\<lparr>raw_address = 0x9000, object_address = 0, object_path = ''''\<rparr>,
      process_start\<lparr>stderr_lines := [126]\<rparr>)"
proof -
  have e: "stderr_lines (process_start :: 64 statics) = []"
    by (simp add: process_start_def)
  have d: "dladdr example_os 0x9000 = None"
    by (simp add: example_os_def)
  have l: "dl_find_object example_os 0x9000 = None"
    by (simp add: example_os_def)
  have g: "GetModuleHandleExA example_os 0x9000 = Inl 126"
    by (simp add: example_os_def)
  note found = get_frame_object_info_not_found
    [where env = example_os and a = "0x9000" and st = process_start and err = 126]
  from d l g e found show ?thesis by simp
qed




text \<open>
  C4, as the claim states it, fails. When \<open>_dl_find_object\<close> finds the module but
  reports no name and \<open>readlink\<close> fails, \<open>object_path\<close> stays empty and
  \<open>object_address\<close> is computed all the same. Here the address \<open>0x1050\<close> of the main
  executable comes back with an empty path and the object address \<open>0x50\<close>.
\<close>

theorem path_recovery_failure_counterexample:
  "dl_find_object no_proc_os 0x1050 = Some \<lparr>l_name = Some '''', l_addr = 0x1000\<rparr> \<and>
   readlink_proc_self_exe no_proc_os = None \<and>
   fst (get_frame_object_info Dl_find_object no_proc_os process_start 0x1050) =
     \<lparr>raw_address = 0x1050, object_address = 0x50, object_path = ''''\<rparr>"
  by (simp add: no_proc_os_def example_os_def process_start_def get_frame_object_info_def
        get_frame_object_info_dl_find_object_def unresolved_frame_def
        get_module_image_base_def)

text \<open>
  C4, amended. When the module lookup fails, or finds a module whose path is not empty
  (reported by the loader, recovered by \<open>readlink\<close>, or returned by
  \<open>get_module_name\<close>), the returned frame is in one of the two states: its path is
  not empty, or it is the unresolved frame with empty path and object address \<open>0\<close>.
  Nothing is said of a found module whose path is empty or cannot be recovered.
\<close>

theorem get_frame_object_info_two_states:
  "(dladdr env a = None \<or> (\<exists>info. dladdr env a = Some info \<and> dli_fname info \<noteq> '''') \<longrightarrow>
      object_path (fst (get_frame_object_info Dladdr env st a)) \<noteq> '''' \<or>
      fst (get_frame_object_info Dladdr env st a) =
        \<lparr>raw_address = a, object_address = 0, object_path = ''''\<rparr>) \<and>
   (dl_find_object env a = None \<or>
    (\<exists>lm c cs. dl_find_object env a = Some lm \<and>
       (l_name lm = Some (c # cs) \<or> readlink_proc_self_exe env = Some (c # cs))) \<longrightarrow>
      object_path (fst (get_frame_object_info Dl_find_object env st a)) \<noteq> '''' \<or>
      fst (get_frame_object_info Dl_find_object env st a) =
        \<lparr>raw_address = a, object_address = 0, object_path = ''''\<rparr>) \<and>
   ((\<exists>err. GetModuleHandleExA env a = Inl err) \<or>
    (\<exists>h. GetModuleHandleExA env a = Inr h \<and> fst (get_module_name env st h) \<noteq> '''') \<longrightarrow>
      object_path (fst (get_frame_object_info Windows env st a)) \<noteq> '''' \<or>
      fst (get_frame_object_info Windows env st a) =
        \<lparr>raw_address = a, object_address = 0, object_path = ''''\<rparr>)"
  by (auto simp: get_frame_object_info_def fst_get_frame_object_info_dl_find_object
        fst_get_frame_object_info_dladdr fst_get_frame_object_info_windows
        unresolved_frame_def Let_def split: option.splits list.splits)

theorem get_frame_object_info_two_states_witness:
  "dladdr example_os 0x9000 = None \<and>
   fst (get_frame_object_info Dladdr example_os process_start 0x9000) =
     \<lparr>raw_address = 0x9000, object_address = 0, object_path = ''''\<rparr> \<and>
   dl_find_object example_os 0x9000 = None \<and>
   fst (get_frame_object_info Dl_find_object example_os process_start 0x9000) =
     \<lparr>raw_address = 0x9000, object_address = 0, object_path = ''''\<rparr> \<and>
   GetModuleHandleExA example_os 0x9000 = Inl 126 \<and>
   fst (get_frame_object_info Windows example_os process_start 0x9000) =
     \<lparr>raw_address = 0x9000, object_address = 0, object_path = ''''\<rparr> \<and>
   dladdr example_os 0x5080 =
     Some \<lparr>dli_fname = ''/usr/lib/libfoo.so'', dli_fbase = 0x5000\<rparr> \<and>
   object_path (fst (get_frame_object_info Dladdr example_os process_start 0x5080)) \<noteq> ''''"
proof -
  have d: "dladdr example_os 0x9000 = None"
    by (simp add: example_os_def)
  have l: "dl_find_object example_os 0x9000 = None"
    by (simp add: example_os_def)
  have g: "GetModuleHandleExA example_os 0x9000 = Inl 126"
    by (simp add: example_os_def)
  have m: "dladdr example_os 0x5080 =
             Some \<lparr>dli_fname = ''/usr/lib/libfoo.so'', dli_fbase = 0x5000\<rparr>"
    by (simp add: example_os_def)
  have e4: "object_address (fst (get_frame_object_info Dladdr example_os process_start 0x5080)) =
              0x480"
    by (simp add: get_frame_object_info_def fst_get_frame_object_info_dladdr m
          fst_get_module_image_base process_start_def example_os_def)
  have f4: "object_path (fst (get_frame_object_info Dladdr example_os process_start 0x5080)) \<noteq> ''''"
    using get_frame_object_info_two_states
      [where env = example_os and a = "0x5080" and st = process_start, THEN conjunct1]
      m e4
    by auto
  have e1: "object_path (fst (get_frame_object_info Dladdr example_os process_start 0x9000)) = ''''"
    by (simp add: get_frame_object_info_def fst_get_frame_object_info_dladdr d
          unresolved_frame_def)
  have e2: "object_path (fst (get_frame_object_info Dl_find_object example_os process_start 0x9000)) = ''''"
    by (simp add: get_frame_object_info_def fst_get_frame_object_info_dl_find_object l
          unresolved_frame_def)
  have e3: "object_path (fst (get_frame_object_info Windows example_os process_start 0x9000)) = ''''"
    by (simp add: get_frame_object_info_def fst_get_frame_object_info_windows g
          unresolved_frame_def)
  note two = get_frame_object_info_two_states
    [where env = example_os and a = "0x9000" and st = process_start]
  from two d l g e1 e2 e3 m f4 show ?thesis by simp
qed

text \<open>
  C5. A lookup of a path \<open>p\<close> that is not cached calls the binary-format reader once,
  returns its answer and stores it for \<open>p\<close>; a lookup of a cached path returns the
  stored value and leaves the statics as they are: nothing is parsed, nothing is stored.
  Hence, in a process, whatever calls it makes and whatever the operating system and the
  files answer, the reader is called at most once for \<open>p\<close>, and the cached paths are
  exactly the parsed ones; and once a lookup of \<open>p\<close> has returned, every later lookup
  of \<open>p\<close>, after any further calls and whatever the reader would answer by then,
  returns the same value.
\<close>

theorem get_module_image_base_once:
  "count_list (parse_calls (run b history process_start)) p \<le> 1 \<and>
   set (parse_calls (run b history process_start)) =
     dom (image_base_cache (run b history process_start)) \<and>
   (image_base_cache st p = None \<longrightarrow>
      get_module_image_base env st p =
        (binary_image_base env p,
         st\<lparr>image_base_cache := (image_base_cache st)(p \<mapsto> binary_image_base env p),
            parse_calls := parse_calls st @ [p]\<rparr>)) \<and>
   (image_base_cache st p = Some v \<longrightarrow> get_module_image_base env st p = (v, st)) \<and>
   image_base_cache (snd (get_module_image_base env st p)) p =
     Some (fst (get_module_image_base env st p)) \<and>
   get_module_image_base env' (run b later (snd (get_module_image_base env st p))) p =
     (fst (get_module_image_base env st p),
      run b later (snd (get_module_image_base env st p)))"
proof (intro conjI impI)
  show "count_list (parse_calls (run b history process_start)) p \<le> 1"
  proof (rule distinct_count_list_le)
    show "distinct (parse_calls (run b history process_start))"
      using run_logged [of b history] by (simp add: calls_logged_def)
  qed
  show "set (parse_calls (run b history process_start)) =
     dom (image_base_cache (run b history process_start))"
    using run_logged [of b history] by (simp add: calls_logged_def)
  show "get_module_image_base env st p =
        (binary_image_base env p,
         st\<lparr>image_base_cache := (image_base_cache st)(p \<mapsto> binary_image_base env p),
            parse_calls := parse_calls st @ [p]\<rparr>)"
    if "image_base_cache st p = None"
    using that by (simp add: get_module_image_base_def Let_def)
  show "get_module_image_base env st p = (v, st)" if "image_base_cache st p = Some v"
    using that by (simp add: get_module_image_base_def)
  show "image_base_cache (snd (get_module_image_base env st p)) p =
     Some (fst (get_module_image_base env st p))"
    by (rule image_base_cached_after)
  show "get_module_image_base env' (run b later (snd (get_module_image_base env st p))) p =
     (fst (get_module_image_base env st p),
      run b later (snd (get_module_image_base env st p)))"
    by (rule image_base_hit [OF image_base_cached_after run_kept])
qed

theorem get_module_image_base_once_witness:
  "image_base_cache (process_start :: 64 statics) ''/usr/lib/libfoo.so'' = None \<and>
   binary_image_base example_os ''/usr/lib/libfoo.so'' = 0x400 \<and>
   fst (get_module_image_base example_os process_start ''/usr/lib/libfoo.so'') = 0x400 \<and>
   parse_calls (snd (get_module_image_base example_os process_start ''/usr/lib/libfoo.so'')) =
     [''/usr/lib/libfoo.so''] \<and>
   image_base_cache
     (snd (get_module_image_base example_os process_start ''/usr/lib/libfoo.so''))
     ''/usr/lib/libfoo.so'' = Some 0x400 \<and>
   get_module_image_base unreadable_os
     (snd (get_module_image_base example_os process_start ''/usr/lib/libfoo.so''))
     ''/usr/lib/libfoo.so'' =
     (0x400, snd (get_module_image_base example_os process_start ''/usr/lib/libfoo.so''))"
proof -
  have h: "image_base_cache (process_start :: 64 statics) ''/usr/lib/libfoo.so'' = None"
    by (simp add: process_start_def)
  have r: "binary_image_base example_os ''/usr/lib/libfoo.so'' = 0x400"
    by (simp add: example_os_def)
  have e: "parse_calls (process_start :: 64 statics) = []"
    by (simp add: process_start_def)
  note miss = get_module_image_base_once
    [where env = example_os and st = process_start and p = "''/usr/lib/libfoo.so''",
     THEN conjunct2, THEN conjunct2, THEN conjunct1, THEN mp, OF h]
  have v: "fst (get_module_image_base example_os process_start ''/usr/lib/libfoo.so'') = 0x400"
    by (simp add: miss r)
  have l: "parse_calls
             (snd (get_module_image_base example_os process_start ''/usr/lib/libfoo.so'')) =
           [''/usr/lib/libfoo.so'']"
    by (simp add: miss e)
  have c: "image_base_cache
     (snd (get_module_image_base example_os process_start ''/usr/lib/libfoo.so''))
     ''/usr/lib/libfoo.so'' = Some 0x400"
    by (simp add: miss r)
  note hit = get_module_image_base_once
    [where env = unreadable_os and v = "0x400" and p = "''/usr/lib/libfoo.so''"
       and st = "snd (get_module_image_base example_os process_start ''/usr/lib/libfoo.so'')",
     THEN conjunct2, THEN conjunct2, THEN conjunct2, THEN conjunct1, THEN mp, OF c]
  show ?thesis
    by (intro conjI h r v l c hit)
qed

text \<open>
  C6. The frame \<open>resolve_safe_object_frame\<close> returns for a safe frame \<open>f\<close> has the
  raw address and the path of \<open>f\<close>, and its object address is the stored offset plus
  the value the image-base cache returns for the stored path; the statics it leaves are
  those of that one cache lookup.
\<close>

theorem resolve_safe_object_frame_address:
  "fst (resolve_safe_object_frame env st f) =
     \<lparr>raw_address = safe_raw_address f,
      object_address =
        address_relative_to_object_start f +
        fst (get_module_image_base env st (safe_object_path f)),
      object_path = safe_object_path f\<rparr> \<and>
   snd (resolve_safe_object_frame env st f) =
     snd (get_module_image_base env st (safe_object_path f))"
  by (simp add: resolve_safe_object_frame_def case_prod_beta)

text \<open>
  C7. A batch of \<open>n\<close> addresses returns \<open>n\<close> frames in the order of the addresses,
  and the frame at each position is the frame \<open>get_frame_object_info\<close> returns for that
  address on its own, at the moment the batch starts. Every address gets its frame
  whatever happened to the addresses before it: a failed lookup yields the unresolved
  frame and the loop goes on.
\<close>

theorem get_frames_object_info_in_order:
  "fst (get_frames_object_info b env st addresses) =
     map (\<lambda>a. fst (get_frame_object_info b env st a)) addresses \<and>
   length (fst (get_frames_object_info b env st addresses)) = length addresses"
  by (simp add: get_frames_object_info_def
        get_frames_object_info_loop_frames [OF filled_from_refl])

text \<open>
  C8, as the claim states it, fails. A reader that returns the zero sentinel is followed
  by \<open>cache.insert\<close> like any other: the zero is stored, and a later lookup of the
  same path returns it without calling the reader, also at a moment when the reader would
  succeed. Here the reader fails for \<open>libfoo\<close> at the first lookup and would return
  \<open>0x400\<close> at the second; the second lookup returns \<open>0\<close> and changes nothing.
\<close>

theorem failed_parse_is_cached_counterexample:
  "binary_image_base unreadable_os ''/usr/lib/libfoo.so'' = 0 \<and>
   binary_image_base example_os ''/usr/lib/libfoo.so'' = 0x400 \<and>
   fst (get_module_image_base unreadable_os process_start ''/usr/lib/libfoo.so'') = 0 \<and>
   image_base_cache
     (snd (get_module_image_base unreadable_os process_start ''/usr/lib/libfoo.so''))
     ''/usr/lib/libfoo.so'' = Some 0 \<and>
   get_module_image_base example_os
     (snd (get_module_image_base unreadable_os process_start ''/usr/lib/libfoo.so''))
     ''/usr/lib/libfoo.so'' =
     (0, snd (get_module_image_base unreadable_os process_start ''/usr/lib/libfoo.so''))"
  by (simp add: unreadable_os_def example_os_def process_start_def get_module_image_base_def)

text \<open>
  C8, amended. When the reader returns the zero sentinel for a path that is not cached,
  the cache stores the zero as it stores any base, and for the rest of the process every
  lookup of that path returns \<open>0\<close> without calling the reader, whatever the reader
  would answer by then. Only a new process, whose cache is empty, asks the reader again.
\<close>

theorem failed_parse_is_cached:
  assumes "image_base_cache st p = None" and "binary_image_base env p = 0"
  shows "get_module_image_base env st p =
           (0, st\<lparr>image_base_cache := (image_base_cache st)(p \<mapsto> 0),
                  parse_calls := parse_calls st @ [p]\<rparr>) \<and>
         get_module_image_base env' (run b later (snd (get_module_image_base env st p))) p =
           (0, run b later (snd (get_module_image_base env st p))) \<and>
         fst (get_module_image_base env' process_start p) = binary_image_base env' p"
proof (intro conjI)
  show first: "get_module_image_base env st p =
           (0, st\<lparr>image_base_cache := (image_base_cache st)(p \<mapsto> 0),
                  parse_calls := parse_calls st @ [p]\<rparr>)"
    using assms by (simp add: get_module_image_base_def)
  have "image_base_cache (snd (get_module_image_base env st p)) p = Some 0"
    by (simp add: first)
  then show "get_module_image_base env' (run b later (snd (get_module_image_base env st p))) p =
           (0, run b later (snd (get_module_image_base env st p)))"
    by (rule image_base_hit [OF _ run_kept])
  show "fst (get_module_image_base env' process_start p) = binary_image_base env' p"
    by (simp add: fst_get_module_image_base process_start_def)
qed

theorem failed_parse_is_cached_witness:
  "image_base_cache (process_start :: 64 statics) ''/usr/lib/libfoo.so'' = None \<and>
   binary_image_base unreadable_os ''/usr/lib/libfoo.so'' = 0 \<and>
   binary_image_base example_os ''/usr/lib/libfoo.so'' = 0x400 \<and>
   get_module_image_base example_os
     (run Dladdr [(example_os, Frame_object_info 0x1050)]
        (snd (get_module_image_base unreadable_os process_start ''/usr/lib/libfoo.so'')))
     ''/usr/lib/libfoo.so'' =
     (0, run Dladdr [(example_os, Frame_object_info 0x1050)]
        (snd (get_module_image_base unreadable_os process_start ''/usr/lib/libfoo.so'')))"
proof -
  have h1: "image_base_cache (process_start :: 64 statics) ''/usr/lib/libfoo.so'' = None"
    by (simp add: process_start_def)
  have h2: "binary_image_base unreadable_os ''/usr/lib/libfoo.so'' = 0"
    by (simp add: unreadable_os_def)
  have h3: "binary_image_base example_os ''/usr/lib/libfoo.so'' = 0x400"
    by (simp add: example_os_def)
  note later =
    failed_parse_is_cached
      [OF h1 h2, where env' = example_os and b = Dladdr
         and later = "[(example_os, Frame_object_info 0x1050)]",
       THEN conjunct2, THEN conjunct1]
  show ?thesis
    by (intro conjI h1 h2 h3 later)
qed

text \<open>
  C9. The frame returned for an address carries that address as \<open>raw_address\<close>, in
  each of the three builds and in every branch: the module is found, it is not found, or
  the path of the found module cannot be recovered.
\<close>

theorem get_frame_object_info_raw_address:
  "raw_address (fst (get_frame_object_info b env st a)) = a"
  by (cases b)
     (auto simp: get_frame_object_info_def get_frame_object_info_dl_find_object_def
        get_frame_object_info_dladdr_def get_frame_object_info_windows_def
        unresolved_frame_def Let_def
        split: option.splits list.splits sum.splits prod.splits)

text \<open>
  C10. \<open>get_module_name\<close> memoizes per handle, failures included. A lookup of a handle
  \<open>h\<close> that is not cached calls \<open>GetModuleFileNameA\<close> once: if the call succeeds,
  the path is stored for \<open>h\<close> and returned; if it fails, the error is printed and the
  empty string is stored for \<open>h\<close> and returned. A lookup of a cached handle returns the
  stored string and leaves the statics as they are. Hence, in a process,
  \<open>GetModuleFileNameA\<close> is called at most once for \<open>h\<close>, and once a lookup of
  \<open>h\<close> has returned, every later lookup of \<open>h\<close> returns the same string (the empty
  string after a failure) without asking again.
\<close>

theorem get_module_name_memoizes:
  "count_list (file_name_calls (run Windows history process_start)) h \<le> 1 \<and>
   get_module_name env' (run Windows later (snd (get_module_name env st h))) h =
     (fst (get_module_name env st h), run Windows later (snd (get_module_name env st h))) \<and>
   (module_name_cache st h = None \<and> GetModuleFileNameA env h = Inl err \<longrightarrow>
      get_module_name env st h =
        ('''', st\<lparr>module_name_cache := (module_name_cache st)(h \<mapsto> ''''),
                  file_name_calls := file_name_calls st @ [h],
                  stderr_lines := stderr_lines st @ [err]\<rparr>) \<and>
      get_module_name env' (run Windows later (snd (get_module_name env st h))) h =
        ('''', run Windows later (snd (get_module_name env st h)))) \<and>
   (module_name_cache st h = None \<and> GetModuleFileNameA env h = Inr path \<longrightarrow>
      get_module_name env st h =
        (path, st\<lparr>module_name_cache := (module_name_cache st)(h \<mapsto> path),
                   file_name_calls := file_name_calls st @ [h]\<rparr>) \<and>
      get_module_name env' (run Windows later (snd (get_module_name env st h))) h =
        (path, run Windows later (snd (get_module_name env st h)))) \<and>
   (module_name_cache st h = Some v \<longrightarrow> get_module_name env st h = (v, st)) \<and>
   set (file_name_calls (run Windows history process_start)) =
     dom (module_name_cache (run Windows history process_start))"
proof (intro conjI impI)
  show "count_list (file_name_calls (run Windows history process_start)) h \<le> 1"
  proof (rule distinct_count_list_le)
    show "distinct (file_name_calls (run Windows history process_start))"
      using run_logged [of Windows history] by (simp add: calls_logged_def)
  qed
  show hit: "get_module_name env' (run Windows later (snd (get_module_name env st h))) h =
     (fst (get_module_name env st h), run Windows later (snd (get_module_name env st h)))"
    by (rule module_name_hit [OF module_name_cached_after run_kept])
  show failed: "get_module_name env st h =
        ('''', st\<lparr>module_name_cache := (module_name_cache st)(h \<mapsto> ''''),
                  file_name_calls := file_name_calls st @ [h],
                  stderr_lines := stderr_lines st @ [err]\<rparr>)"
    if "module_name_cache st h = None \<and> GetModuleFileNameA env h = Inl err"
    using that by (simp add: get_module_name_def)
  show "get_module_name env' (run Windows later (snd (get_module_name env st h))) h =
        ('''', run Windows later (snd (get_module_name env st h)))"
    if "module_name_cache st h = None \<and> GetModuleFileNameA env h = Inl err"
  proof -
    have "fst (get_module_name env st h) = ''''"
      by (simp add: failed [OF that])
    with hit show ?thesis by simp
  qed
  show stored: "get_module_name env st h =
        (path, st\<lparr>module_name_cache := (module_name_cache st)(h \<mapsto> path),
                   file_name_calls := file_name_calls st @ [h]\<rparr>)"
    if "module_name_cache st h = None \<and> GetModuleFileNameA env h = Inr path"
    using that by (simp add: get_module_name_def)
  show "get_module_name env' (run Windows later (snd (get_module_name env st h))) h =
        (path, run Windows later (snd (get_module_name env st h)))"
    if "module_name_cache st h = None \<and> GetModuleFileNameA env h = Inr path"
  proof -
    have "fst (get_module_name env st h) = path"
      by (simp add: stored [OF that])
    with hit show ?thesis by simp
  qed
  show "get_module_name env st h = (v, st)" if "module_name_cache st h = Some v"
    using that by (simp add: get_module_name_def)
  show "set (file_name_calls (run Windows history process_start)) =
     dom (module_name_cache (run Windows history process_start))"
    using run_logged [of Windows history] by (simp add: calls_logged_def)
qed

theorem get_module_name_memoizes_witness:
  "module_name_cache (process_start :: 64 statics) 0x7000 = None \<and>
   GetModuleFileNameA example_os 0x7000 = Inl 6 \<and>
   GetModuleFileNameA renamed_os 0x7000 = Inr ''C:/app/plugin.dll'' \<and>
   get_module_name renamed_os
     (run Windows [(renamed_os, Frame_object_info 0x5080)]
        (snd (get_module_name example_os process_start 0x7000))) 0x7000 =
     ('''', run Windows [(renamed_os, Frame_object_info 0x5080)]
        (snd (get_module_name example_os process_start 0x7000))) \<and>
   module_name_cache (process_start :: 64 statics) 0x5000 = None \<and>
   GetModuleFileNameA example_os 0x5000 = Inr ''/usr/lib/libfoo.so'' \<and>
   fst (get_module_name example_os process_start 0x5000) = ''/usr/lib/libfoo.so'' \<and>
   file_name_calls (snd (get_module_name example_os process_start 0x5000)) = [0x5000] \<and>
   module_name_cache (snd (get_module_name example_os process_start 0x5000)) 0x5000 =
     Some ''/usr/lib/libfoo.so'' \<and>
   get_module_name renamed_os
     (run Windows [(renamed_os, Frame_object_info 0x5080)]
        (snd (get_module_name example_os process_start 0x5000))) 0x5000 =
     (''/usr/lib/libfoo.so'', run Windows [(renamed_os, Frame_object_info 0x5080)]
        (snd (get_module_name example_os process_start 0x5000))) \<and>
   get_module_name renamed_os
     (snd (get_module_name example_os process_start 0x5000)) 0x5000 =
     (''/usr/lib/libfoo.so'', snd (get_module_name example_os process_start 0x5000))"
proof -
  have h: "module_name_cache (process_start :: 64 statics) 0x7000 = None \<and>
           GetModuleFileNameA example_os 0x7000 = Inl 6"
    by (simp add: process_start_def example_os_def)
  have r: "GetModuleFileNameA renamed_os 0x7000 = Inr ''C:/app/plugin.dll''"
    by (simp add: renamed_os_def)
  have k: "module_name_cache (process_start :: 64 statics) 0x5000 = None \<and>
           GetModuleFileNameA example_os 0x5000 = Inr ''/usr/lib/libfoo.so''"
    by (simp add: process_start_def example_os_def)
  have e: "file_name_calls (process_start :: 64 statics) = []"
    by (simp add: process_start_def)
  note later =
    get_module_name_memoizes
      [where env = example_os and st = process_start and h = "0x7000" and err = 6
         and env' = renamed_os and later = "[(renamed_os, Frame_object_info 0x5080)]",
       THEN conjunct2, THEN conjunct2, THEN conjunct1, THEN mp, OF h, THEN conjunct2]
  note success =
    get_module_name_memoizes
      [where env = example_os and st = process_start and h = "0x5000"
         and path = "''/usr/lib/libfoo.so''"
         and env' = renamed_os and later = "[(renamed_os, Frame_object_info 0x5080)]",
       THEN conjunct2, THEN conjunct2, THEN conjunct2, THEN conjunct1, THEN mp, OF k]
  have v: "fst (get_module_name example_os process_start 0x5000) = ''/usr/lib/libfoo.so''"
    by (simp add: success [THEN conjunct1])
  have l: "file_name_calls (snd (get_module_name example_os process_start 0x5000)) = [0x5000]"
    by (simp add: success [THEN conjunct1] e)
  have c: "module_name_cache (snd (get_module_name example_os process_start 0x5000)) 0x5000 =
     Some ''/usr/lib/libfoo.so''"
    by (simp add: success [THEN conjunct1])
  note hit =
    get_module_name_memoizes
      [where env = renamed_os and h = "0x5000" and v = "''/usr/lib/libfoo.so''"
         and st = "snd (get_module_name example_os process_start 0x5000)",
       THEN conjunct2, THEN conjunct2, THEN conjunct2, THEN conjunct2, THEN conjunct1,
       THEN mp, OF c]
  show ?thesis
    by (intro conjI h [THEN conjunct1] h [THEN conjunct2] r later k [THEN conjunct1]
          k [THEN conjunct2] v l c success [THEN conjunct2] hit)
qed

end
